theory Spec2Isabelle
  imports Complex_Main
begin

unbundle bit_operations_syntax

section \<open>The DCPU-16 emulator of \<^verbatim>\<open>dcpu.py\<close>\<close>

text \<open>
  A shallow embedding of the class \<^verbatim>\<open>DCPU\<close> of \<^verbatim>\<open>src/dcpu.py\<close>, read as Python 3.
  Python integers are \<open>int\<close>; every mask of the source is written out. The mutable
  object \<^verbatim>\<open>self\<close> is the record \<open>cpu\<close>, passed in and returned. A Python exception is
  a value of \<open>error\<close> returned together with the state the object has when it is raised:
  an exception does not undo the assignments made before it.

  Names follow the source. A leading underscore is dropped (\<^verbatim>\<open>_setval\<close> is \<open>setval\<close>),
  \<^verbatim>\<open>_tick\<close> is \<open>tick_inner\<close> beside \<^verbatim>\<open>tick\<close>, the opcodes \<^verbatim>\<open>AND\<close> and \<^verbatim>\<open>XOR\<close> are
  \<open>AND_OP\<close> and \<open>XOR_OP\<close>, the value code \<^verbatim>\<open>O\<close> is \<open>O_VC\<close> and the attribute \<^verbatim>\<open>self.o\<close>
  is the field \<open>o_flag\<close>.
\<close>

subsection \<open>Exceptions\<close>

text \<open>
  The exceptions the interpreter raises by itself, and the two \<^verbatim>\<open>Exception\<close>s that
  \<^verbatim>\<open>_abort\<close> raises: \<open>UnknownOpcode n\<close> stands for \<^verbatim>\<open>Exception("UNKNOWN OPCODE %d" % n)\<close>
  and \<open>UnknownValueCode n\<close> for \<^verbatim>\<open>Exception("UNKNOWN VALUE CODE %d" % n)\<close>.
\<close>

datatype error =
    NameError string
  | UnboundLocalError string
  | ZeroDivisionError
  | TypeError
  | ValueError
  | IndexError
  | OverflowError
  | UnknownOpcode int
  | UnknownValueCode int

subsection \<open>Constants: \<^verbatim>\<open>DCPU_OpCodes\<close>, \<^verbatim>\<open>DCPU_Values\<close>, \<^verbatim>\<open>DCPU_Options\<close>\<close>

definition NOP :: int where "NOP = 0"
definition SET :: int where "SET = 1"
definition ADD :: int where "ADD = 2"
definition SUB :: int where "SUB = 3"
definition MUL :: int where "MUL = 4"
definition DIV :: int where "DIV = 5"
definition MOD :: int where "MOD = 6"
definition SHL :: int where "SHL = 7"
definition SHR :: int where "SHR = 8"
definition AND_OP :: int where "AND_OP = 9"
definition BOR :: int where "BOR = 10"
definition XOR_OP :: int where "XOR_OP = 11"
definition IFE :: int where "IFE = 12"
definition IFN :: int where "IFN = 13"
definition IFG :: int where "IFG = 14"
definition IFB :: int where "IFB = 15"

text \<open>The value codes; a Python \<^verbatim>\<open>range(m, n)\<close> is the set of the integers from m up to n - 1.\<close>

definition REG :: "int set" where "REG = {0..<8}"
definition REG_MEM :: "int set" where "REG_MEM = {8..<16}"
definition MEM_OFFSET_REG :: "int set" where "MEM_OFFSET_REG = {16..<24}"
definition POP :: int where "POP = 24"
definition PEEK :: int where "PEEK = 25"
definition PUSH :: int where "PUSH = 26"
definition SP :: int where "SP = 27"
definition PC :: int where "PC = 28"
definition O_VC :: int where "O_VC = 29"
definition MEM :: int where "MEM = 30"
definition MEM_LIT :: int where "MEM_LIT = 31"
definition NUM_LIT :: "int set" where "NUM_LIT = {32..<64}"

definition OP_PORTION :: int where "OP_PORTION = 15"
definition AV_PORTION :: int where "AV_PORTION = 1008"
definition BV_PORTION :: int where "BV_PORTION = 64512"
definition NUM_REGISTERS :: nat where "NUM_REGISTERS = 8"
definition MAX_VAL :: int where "MAX_VAL = 65535"

definition MEMORY_SIZE :: nat where "MEMORY_SIZE = 65536"
definition MEM_DEFAULT :: int where "MEM_DEFAULT = 0"
definition REG_DEFAULT :: int where "REG_DEFAULT = 0"
definition PC_DEFAULT :: int where "PC_DEFAULT = 0"
definition SP_DEFAULT :: int where "SP_DEFAULT = 0"

subsection \<open>The state of a \<^verbatim>\<open>DCPU\<close> object\<close>

record cpu =
  memory :: "int list"
  registers :: "int list"
  pc :: int
  sp :: int
  o_flag :: bool

text \<open>
  A method of the class: it runs on a state and either returns a value (\<open>Inr\<close>) or raises
  (\<open>Inl\<close>); both come with the state it leaves behind.
\<close>

type_synonym 'a run = "cpu \<Rightarrow> (error + 'a) \<times> cpu"

definition ret :: "'a \<Rightarrow> 'a run" where
  "ret x s = (Inr x, s)"

definition raise :: "error \<Rightarrow> 'a run" where
  "raise e s = (Inl e, s)"

definition bnd :: "'a run \<Rightarrow> ('a \<Rightarrow> 'b run) \<Rightarrow> 'b run" where
  "bnd m f s = (case m s of (Inl e, s') \<Rightarrow> (Inl e, s') | (Inr x, s') \<Rightarrow> f x s')"

subsection \<open>Bare names\<close>

text \<open>
  A name that is not a local of the function is looked up among the globals of the module
  and the builtins when it is evaluated. The module binds \<^verbatim>\<open>array\<close>, \<^verbatim>\<open>DCPU_OpCodes\<close>,
  \<^verbatim>\<open>DCPU_Values\<close>, \<^verbatim>\<open>DCPU_Options\<close> and \<^verbatim>\<open>DCPU\<close> and nothing else; the constants of the
  three classes are attributes, reached through \<^verbatim>\<open>self\<close> only. The four bare names the
  methods evaluate (\<^verbatim>\<open>IFN\<close>, \<^verbatim>\<open>IFG\<close>, \<^verbatim>\<open>IFB\<close>, \<^verbatim>\<open>NUM_LIT\<close>) are none of these,
  so each lookup raises \<^verbatim>\<open>NameError\<close>.
\<close>

definition global_name :: "string \<Rightarrow> error + 'a" where
  "global_name name = Inl (NameError name)"

subsection \<open>Python subscripts\<close>

text \<open>
  \<^verbatim>\<open>xs[i]\<close> on a sequence of length n: an index from 0 to n - 1 is taken as it is, an index
  from -n to -1 counts from the end, any other raises \<^verbatim>\<open>IndexError\<close>.
\<close>

definition py_index :: "nat \<Rightarrow> int \<Rightarrow> nat option" where
  "py_index n i =
     (if 0 \<le> i \<and> i < int n then Some (nat i)
      else if - int n \<le> i \<and> i < 0 then Some (nat (int n + i))
      else None)"

definition getitem :: "int list \<Rightarrow> int \<Rightarrow> error + int" where
  "getitem xs i = (case py_index (length xs) i of None \<Rightarrow> Inl IndexError | Some j \<Rightarrow> Inr (xs ! j))"

definition list_setitem :: "int list \<Rightarrow> int \<Rightarrow> int \<Rightarrow> error + int list" where
  "list_setitem xs i v =
     (case py_index (length xs) i of None \<Rightarrow> Inl IndexError | Some j \<Rightarrow> Inr (xs[j := v]))"

text \<open>
  An \<^verbatim>\<open>array.array('H', ...)\<close> holds unsigned 16-bit items: after the index check, storing
  a value outside 0..65535 raises \<^verbatim>\<open>OverflowError\<close>.
\<close>

definition array_setitem :: "int list \<Rightarrow> int \<Rightarrow> int \<Rightarrow> error + int list" where
  "array_setitem xs i v =
     (case py_index (length xs) i of
        None \<Rightarrow> Inl IndexError
      | Some j \<Rightarrow> if 0 \<le> v \<and> v \<le> 65535 then Inr (xs[j := v]) else Inl OverflowError)"

definition get_memory :: "int \<Rightarrow> int run" where
  "get_memory i s = (case getitem (memory s) i of Inl e \<Rightarrow> (Inl e, s) | Inr v \<Rightarrow> (Inr v, s))"

definition set_memory :: "int \<Rightarrow> int \<Rightarrow> unit run" where
  "set_memory i v s =
     (case array_setitem (memory s) i v of
        Inl e \<Rightarrow> (Inl e, s)
      | Inr m \<Rightarrow> (Inr (), s\<lparr>memory := m\<rparr>))"

definition get_register :: "int \<Rightarrow> int run" where
  "get_register i s = (case getitem (registers s) i of Inl e \<Rightarrow> (Inl e, s) | Inr v \<Rightarrow> (Inr v, s))"

definition set_register :: "int \<Rightarrow> int \<Rightarrow> unit run" where
  "set_register i v s =
     (case list_setitem (registers s) i v of
        Inl e \<Rightarrow> (Inl e, s)
      | Inr r \<Rightarrow> (Inr (), s\<lparr>registers := r\<rparr>))"

subsection \<open>\<^verbatim>\<open>_init_cpu\<close> and \<^verbatim>\<open>__init__\<close>\<close>

text \<open>\<^verbatim>\<open>_init_cpu\<close> ignores its \<^verbatim>\<open>num_registers\<close> argument and uses \<^verbatim>\<open>_NUM_REGISTERS\<close>.\<close>

definition init_cpu :: "nat \<Rightarrow> nat \<Rightarrow> cpu" where
  "init_cpu sz num_registers =
     \<lparr>memory = replicate sz MEM_DEFAULT,
      registers = replicate NUM_REGISTERS REG_DEFAULT,
      pc = PC_DEFAULT,
      sp = SP_DEFAULT,
      o_flag = False\<rparr>"

definition new_DCPU :: cpu where
  "new_DCPU = init_cpu MEMORY_SIZE NUM_REGISTERS"

subsection \<open>\<^verbatim>\<open>_has_overflown\<close>, \<^verbatim>\<open>_overflown\<close> and the counters\<close>

definition has_overflown :: "int \<Rightarrow> bool" where
  "has_overflown val = (val < 0 \<or> val > MAX_VAL)"

text \<open>The body of \<^verbatim>\<open>_overflown\<close> never reads its parameter \<^verbatim>\<open>setO\<close>.\<close>

definition overflown :: "int \<Rightarrow> bool \<Rightarrow> int run" where
  "overflown val setO s = (Inr (val AND MAX_VAL), s\<lparr>o_flag := has_overflown val\<rparr>)"

definition incPC :: "unit run" where
  "incPC s = bnd (overflown (pc s + 1) True) (\<lambda>v s'. (Inr (), s'\<lparr>pc := v\<rparr>)) s"

definition incSP :: "unit run" where
  "incSP s = bnd (overflown (sp s + 1) True) (\<lambda>v s'. (Inr (), s'\<lparr>sp := v\<rparr>)) s"

definition decSP :: "unit run" where
  "decSP s = bnd (overflown (sp s - 1) True) (\<lambda>v s'. (Inr (), s'\<lparr>sp := v\<rparr>)) s"

definition abort :: "error \<Rightarrow> 'a run" where
  "abort message = raise message"

subsection \<open>\<^verbatim>\<open>_tick\<close>: the opcodes\<close>

text \<open>
  The operands are what \<^verbatim>\<open>_getval\<close> returned: an integer, or Python's \<^verbatim>\<open>None\<close>
  (\<open>None\<close> here). An arithmetic or bitwise operator applied to \<^verbatim>\<open>None\<close> raises
  \<^verbatim>\<open>TypeError\<close>; a shift by a negative count raises \<^verbatim>\<open>ValueError\<close>; \<^verbatim>\<open>%\<close> by zero
  raises \<^verbatim>\<open>ZeroDivisionError\<close>. The integers are unbounded, as Python's are, and no limit
  of the interpreter's memory is modelled: \<open>py_lshift\<close> yields the shifted value for every
  count from 0 on, where the interpreter raises \<^verbatim>\<open>OverflowError\<close> (or \<^verbatim>\<open>MemoryError\<close>) on a
  count too large for it. A count read from the CPU is at most 65535 and below that limit.
\<close>

definition int_binop :: "(int \<Rightarrow> int \<Rightarrow> error + int) \<Rightarrow> int option \<Rightarrow> int option \<Rightarrow> error + int" where
  "int_binop f a b = (case (a, b) of (Some x, Some y) \<Rightarrow> f x y | _ \<Rightarrow> Inl TypeError)"

definition py_mod :: "int \<Rightarrow> int \<Rightarrow> error + int" where
  "py_mod x y = (if y = 0 then Inl ZeroDivisionError else Inr (x mod y))"

definition py_lshift :: "int \<Rightarrow> int \<Rightarrow> error + int" where
  "py_lshift x y = (if y < 0 then Inl ValueError else Inr (push_bit (nat y) x))"

definition py_rshift :: "int \<Rightarrow> int \<Rightarrow> error + int" where
  "py_rshift x y = (if y < 0 then Inl ValueError else Inr (drop_bit (nat y) x))"

text \<open>
  The last line of \<^verbatim>\<open>_tick\<close>, \<^verbatim>\<open>return self._overflown(a, setO=True)\<close>. On \<^verbatim>\<open>None\<close>
  the comparison \<^verbatim>\<open>val < 0\<close> of \<^verbatim>\<open>_has_overflown\<close> raises \<^verbatim>\<open>TypeError\<close> before the flag
  is assigned.
\<close>

definition return_overflown :: "int option \<Rightarrow> int option run" where
  "return_overflown a =
     (case a of
        None \<Rightarrow> raise TypeError
      | Some x \<Rightarrow> bnd (overflown x True) (\<lambda>v. ret (Some v)))"

text \<open>
  \<^verbatim>\<open>a /= b\<close> is true division in Python 3: on integers it raises \<^verbatim>\<open>ZeroDivisionError\<close>
  when b is 0 and gives a \<^verbatim>\<open>float\<close> otherwise. \<^verbatim>\<open>_overflown\<close> then assigns the flag from
  the comparisons of that float with 0 and 65535, and raises \<^verbatim>\<open>TypeError\<close> at
  \<^verbatim>\<open>val & self._MAX_VAL\<close>, which is not defined on a float. The float never leaves
  \<^verbatim>\<open>_tick\<close>; only its two comparisons are observable. They are taken on the exact
  quotient, which they agree with on every pair of 16-bit operands.
  Outside 16 bits the model is not the float: a quotient that rounds to 65535.0 or
  underflows to -0.0 compares otherwise than the exact one, and a dividend too large for a
  float raises \<^verbatim>\<open>OverflowError\<close> where the model has \<^verbatim>\<open>TypeError\<close>. Memory words are 16-bit
  by the array's type, and \<^verbatim>\<open>tick\<close> stores masked values only.
\<close>

definition truediv_has_overflown :: "int \<Rightarrow> int \<Rightarrow> bool" where
  "truediv_has_overflown x y =
     (rat_of_int x / rat_of_int y < 0 \<or> rat_of_int x / rat_of_int y > rat_of_int MAX_VAL)"

definition truediv_overflown :: "int option \<Rightarrow> int option \<Rightarrow> int option run" where
  "truediv_overflown a b =
     (case (a, b) of
        (Some x, Some y) \<Rightarrow>
          if y = 0 then raise ZeroDivisionError
          else (\<lambda>s. (Inl TypeError, s\<lparr>o_flag := truediv_has_overflown x y\<rparr>))
      | _ \<Rightarrow> raise TypeError)"

text \<open>
  \<^verbatim>\<open>a <= b\<close> raises \<^verbatim>\<open>TypeError\<close> when an operand is \<^verbatim>\<open>None\<close>; \<^verbatim>\<open>a or b\<close> is false when
  each operand is \<^verbatim>\<open>None\<close> or 0.
\<close>

definition py_le :: "int option \<Rightarrow> int option \<Rightarrow> error + bool" where
  "py_le a b = (case (a, b) of (Some x, Some y) \<Rightarrow> Inr (x \<le> y) | _ \<Rightarrow> Inl TypeError)"

definition truthy :: "int option \<Rightarrow> bool" where
  "truthy a = (case a of None \<Rightarrow> False | Some x \<Rightarrow> x \<noteq> 0)"

text \<open>
  The chain of \<^verbatim>\<open>if\<close>/\<^verbatim>\<open>elif\<close> of \<^verbatim>\<open>_tick\<close>, in its order. \<^verbatim>\<open>SET\<close> assigns the local
  \<^verbatim>\<open>b = a\<close> and falls through to the last line with a unchanged. The tests behind
  \<^verbatim>\<open>op == self.IFE\<close> compare with the bare names \<^verbatim>\<open>IFN\<close>, \<^verbatim>\<open>IFG\<close> and \<^verbatim>\<open>IFB\<close>.
\<close>

definition tick_inner :: "int \<Rightarrow> int option \<Rightarrow> int option \<Rightarrow> int option run" where
  "tick_inner op a b =
     (if op = NOP then ret None
      else if op = SET then return_overflown a
      else if op = ADD then
        (case int_binop (\<lambda>x y. Inr (x + y)) a b of Inl e \<Rightarrow> raise e | Inr v \<Rightarrow> return_overflown (Some v))
      else if op = SUB then
        (case int_binop (\<lambda>x y. Inr (x - y)) a b of Inl e \<Rightarrow> raise e | Inr v \<Rightarrow> return_overflown (Some v))
      else if op = MUL then
        (case int_binop (\<lambda>x y. Inr (x * y)) a b of Inl e \<Rightarrow> raise e | Inr v \<Rightarrow> return_overflown (Some v))
      else if op = DIV then truediv_overflown a b
      else if op = MOD then
        (case int_binop py_mod a b of Inl e \<Rightarrow> raise e | Inr v \<Rightarrow> return_overflown (Some v))
      else if op = SHL then
        (case int_binop py_lshift a b of Inl e \<Rightarrow> raise e | Inr v \<Rightarrow> return_overflown (Some v))
      else if op = SHR then
        (case int_binop py_rshift a b of Inl e \<Rightarrow> raise e | Inr v \<Rightarrow> return_overflown (Some v))
      else if op = AND_OP then
        (case int_binop (\<lambda>x y. Inr (x AND y)) a b of Inl e \<Rightarrow> raise e | Inr v \<Rightarrow> ret (Some v))
      else if op = BOR then
        (case int_binop (\<lambda>x y. Inr (x OR y)) a b of Inl e \<Rightarrow> raise e | Inr v \<Rightarrow> ret (Some v))
      else if op = XOR_OP then
        (case int_binop (\<lambda>x y. Inr (x XOR y)) a b of Inl e \<Rightarrow> raise e | Inr v \<Rightarrow> ret (Some v))
      else if op = IFE then
        (if a \<noteq> b then bnd incPC (\<lambda>_. ret None) else ret None)
      else
        (case global_name ''IFN'' of
           Inl e \<Rightarrow> raise e
         | Inr ifn \<Rightarrow>
             if op = ifn then
               (if a = b then bnd incPC (\<lambda>_. ret None) else ret None)
             else
               (case global_name ''IFG'' of
                  Inl e \<Rightarrow> raise e
                | Inr ifg \<Rightarrow>
                    if op = ifg then
                      (case py_le a b of
                         Inl e \<Rightarrow> raise e
                       | Inr c \<Rightarrow> if c then bnd incPC (\<lambda>_. ret None) else ret None)
                    else
                      (case global_name ''IFB'' of
                         Inl e \<Rightarrow> raise e
                       | Inr ifb \<Rightarrow>
                           if op = ifb then
                             (if \<not> (truthy a \<or> truthy b) then bnd incPC (\<lambda>_. ret None)
                              else ret None)
                           else abort (UnknownOpcode op)))))"

subsection \<open>\<^verbatim>\<open>_setval\<close> and \<^verbatim>\<open>_getval\<close>: the value codes\<close>

text \<open>
  \<^verbatim>\<open>_setval(vc, f)\<close> reads when f is \<^verbatim>\<open>None\<close> and writes otherwise; the result is what
  the Python call returns (\<open>None\<close> for Python's \<^verbatim>\<open>None\<close>). The chain is in the source's
  order.
  \<^item> For 8..15 the source subscripts \<^verbatim>\<open>self.registers[reg]\<close>; \<^verbatim>\<open>reg\<close> is a local of the
    function (it is assigned in the next branch) and has no value yet, so both the read
    and the write raise \<^verbatim>\<open>UnboundLocalError\<close>.
  \<^item> For \<^verbatim>\<open>POP\<close> the write leaves \<^verbatim>\<open>vc\<close> as it is and the function returns it
    after \<^verbatim>\<open>_incSP\<close>.
  \<^item> The test behind \<^verbatim>\<open>MEM_LIT\<close> is \<^verbatim>\<open>vc in NUM_LIT\<close>, on the bare name \<^verbatim>\<open>NUM_LIT\<close>, and
    its branch subtracts \<^verbatim>\<open>NUM_LIT[0]\<close>, the least element of the range.
\<close>

definition setval :: "int \<Rightarrow> int option \<Rightarrow> int option run" where
  "setval vc f =
     (if vc \<in> REG then
        (case f of
           None \<Rightarrow> bnd (get_register vc) (\<lambda>x. ret (Some x))
         | Some v \<Rightarrow> bnd (set_register vc v) (\<lambda>_. ret None))
      else if vc \<in> REG_MEM then raise (UnboundLocalError ''reg'')
      else if vc \<in> MEM_OFFSET_REG then
        bnd incPC (\<lambda>_.
        bnd (\<lambda>s. get_memory (pc s) s) (\<lambda>next_mem.
        bnd (get_register (vc - 16)) (\<lambda>reg.
        bnd (overflown (reg + next_mem) True) (\<lambda>vc'.
          case f of
            None \<Rightarrow> bnd (get_memory vc') (\<lambda>x. ret (Some x))
          | Some v \<Rightarrow> bnd (set_memory vc' v) (\<lambda>_. ret None)))))
      else if vc = POP then
        bnd (case f of
               None \<Rightarrow> (\<lambda>s. get_memory (sp s) s)
             | Some v \<Rightarrow> bnd (\<lambda>s. set_memory (sp s) v s) (\<lambda>_. ret vc)) (\<lambda>vc'.
        bnd incSP (\<lambda>_. ret (Some vc')))
      else if vc = PEEK then
        (case f of
           None \<Rightarrow> bnd (\<lambda>s. get_memory (sp s) s) (\<lambda>x. ret (Some x))
         | Some v \<Rightarrow> bnd (\<lambda>s. set_memory (sp s) v s) (\<lambda>_. ret None))
      else if vc = PUSH then
        bnd decSP (\<lambda>_.
          case f of
            None \<Rightarrow> bnd (\<lambda>s. get_memory (sp s) s) (\<lambda>x. ret (Some x))
          | Some v \<Rightarrow> bnd (\<lambda>s. set_memory (sp s) v s) (\<lambda>_. ret None))
      else if vc = SP then
        (case f of
           None \<Rightarrow> (\<lambda>s. (Inr (Some (sp s)), s))
         | Some v \<Rightarrow> (\<lambda>s. (Inr None, s\<lparr>sp := v\<rparr>)))
      else if vc = PC then
        (case f of
           None \<Rightarrow> (\<lambda>s. (Inr (Some (pc s)), s))
         | Some v \<Rightarrow> (\<lambda>s. (Inr None, s\<lparr>pc := v\<rparr>)))
      else if vc = O_VC then
        (case f of
           None \<Rightarrow> (\<lambda>s. (Inr (Some (if o_flag s then 1 else 0)), s))
         | Some v \<Rightarrow> (\<lambda>s. (Inr None, s\<lparr>o_flag := (v \<noteq> 0)\<rparr>)))
      else if vc = MEM then
        bnd incPC (\<lambda>_.
        bnd (\<lambda>s. get_memory (pc s) s) (\<lambda>vc'.
          case f of
            None \<Rightarrow> bnd (get_memory vc') (\<lambda>x. ret (Some x))
          | Some v \<Rightarrow> bnd (set_memory vc' v) (\<lambda>_. ret None)))
      else if vc = MEM_LIT then
        (case f of
           Some v \<Rightarrow> ret None
         | None \<Rightarrow> bnd incPC (\<lambda>_. bnd (\<lambda>s. get_memory (pc s) s) (\<lambda>x. ret (Some x))))
      else
        (case global_name ''NUM_LIT'' of
           Inl e \<Rightarrow> raise e
         | Inr num_lit \<Rightarrow>
             if vc \<in> num_lit then
               (case f of
                  Some v \<Rightarrow> ret None
                | None \<Rightarrow> ret (Some (vc - Min num_lit)))
             else abort (UnknownValueCode vc)))"

definition getval :: "int \<Rightarrow> int option run" where
  "getval vc = setval vc None"

subsection \<open>\<^verbatim>\<open>tick\<close>: one instruction\<close>

text \<open>
  \<open>tick_body\<close> is \<^verbatim>\<open>tick\<close> up to, and without, its last statement
  \<^verbatim>\<open>self._incPC()\<close>. Its result tells how it ended: \<open>False\<close> is the early
  \<^verbatim>\<open>return\<close> taken when the opcode is \<^verbatim>\<open>NOP\<close>, \<open>True\<close> means that control reaches the
  last statement. The operand codes are the masked fields \<^verbatim>\<open>v & _AV_PORTION\<close> and
  \<^verbatim>\<open>v & _BV_PORTION\<close> as the source passes them on, without a shift.
\<close>

definition tick_body :: "bool run" where
  "tick_body =
     bnd (\<lambda>s. get_memory (pc s) s) (\<lambda>v.
       let op = v AND OP_PORTION in
       if op = NOP then ret False
       else
         let a = v AND AV_PORTION; b = v AND BV_PORTION in
         bnd (getval a) (\<lambda>aval.
         bnd (getval b) (\<lambda>bval.
         bnd (tick_inner op aval bval) (\<lambda>fval.
           case fval of
             None \<Rightarrow> ret True
           | Some fv \<Rightarrow>
               bnd (overflown fv True) (\<lambda>fv'.
               bnd (setval a (Some fv')) (\<lambda>_. ret True))))))"

definition tick :: "unit run" where
  "tick = bnd tick_body (\<lambda>reaches_end. if reaches_end then incPC else ret ())"

text \<open>
  The instruction word of the layout \<^verbatim>\<open>bbbbbbaaaaaaoooo\<close> documented beside the masks:
  the opcode in the low 4 bits, the code of operand a in the next 6, the code of operand
  b in the high 6.
\<close>

definition encode :: "int \<Rightarrow> int \<Rightarrow> int \<Rightarrow> int" where
  "encode op a b = op + 16 * a + 1024 * b"

subsection \<open>Ranges and the states used below\<close>

definition in_range16 :: "int \<Rightarrow> bool" where
  "in_range16 x = (0 \<le> x \<and> x \<le> MAX_VAL)"

definition pc_ok :: "cpu \<Rightarrow> bool" where
  "pc_ok s = in_range16 (pc s)"

definition keeps_pc :: "'a run \<Rightarrow> bool" where
  "keeps_pc m = (\<forall>s. pc_ok s \<longrightarrow> pc_ok (snd (m s)))"

text \<open>A fresh CPU whose word 0 is \<^verbatim>\<open>SET\<close> with operand a = register 0 and operand b = literal 5.\<close>

definition set_literal_cpu :: cpu where
  "set_literal_cpu = new_DCPU\<lparr>memory := (memory new_DCPU)[0 := encode SET 0 37]\<rparr>"

text \<open>
  Register 0 holds 1; word 0 is \<^verbatim>\<open>ADD\<close> with the operand fields 16 and 0, words 1 and 2 hold
  100 and 200, word 101 holds 7.
\<close>

definition add_offset_cpu :: cpu where
  "add_offset_cpu =
     new_DCPU\<lparr>memory := (memory new_DCPU)[0 := 18, 1 := 100, 2 := 200, 101 := 7],
              registers := [1, 0, 0, 0, 0, 0, 0, 0]\<rparr>"

text \<open>Register 0 holds 40000; word 0 is \<^verbatim>\<open>ADD\<close> of register 0 to itself.\<close>

definition add_overflow_cpu :: cpu where
  "add_overflow_cpu =
     new_DCPU\<lparr>memory := (memory new_DCPU)[0 := encode ADD 0 0],
              registers := [40000, 0, 0, 0, 0, 0, 0, 0]\<rparr>"

text \<open>Word 0 is \<^verbatim>\<open>DIV\<close> of register 0 by itself; register 0 holds 0, or 6.\<close>

definition div_zero_cpu :: cpu where
  "div_zero_cpu = new_DCPU\<lparr>memory := (memory new_DCPU)[0 := encode DIV 0 0]\<rparr>"

definition div_six_cpu :: cpu where
  "div_six_cpu = div_zero_cpu\<lparr>registers := [6, 0, 0, 0, 0, 0, 0, 0]\<rparr>"

text \<open>Word 0 is \<^verbatim>\<open>IFN\<close> on register 0 and register 0.\<close>

definition ifn_cpu :: cpu where
  "ifn_cpu = new_DCPU\<lparr>memory := (memory new_DCPU)[0 := encode IFN 0 0]\<rparr>"

text \<open>A fresh CPU with 42 in word 1, and one whose pc is at the last word, holding an \<^verbatim>\<open>ADD\<close>.\<close>

definition next_word_cpu :: cpu where
  "next_word_cpu = new_DCPU\<lparr>memory := (memory new_DCPU)[1 := 42]\<rparr>"

definition wrap_cpu :: cpu where
  "wrap_cpu =
     new_DCPU\<lparr>memory := (memory new_DCPU)[65535 := encode ADD 0 0],
              registers := [40000, 0, 0, 0, 0, 0, 0, 0],
              pc := 65535\<rparr>"

definition wrap_cpu_body :: cpu where
  "wrap_cpu_body = wrap_cpu\<lparr>registers := [14464, 0, 0, 0, 0, 0, 0, 0]\<rparr>"

section \<open>Basic facts\<close>

lemmas opcode_defs = NOP_def SET_def ADD_def SUB_def MUL_def DIV_def MOD_def SHL_def
  SHR_def AND_OP_def BOR_def XOR_OP_def IFE_def IFN_def IFG_def IFB_def

lemmas value_code_defs = REG_def REG_MEM_def MEM_OFFSET_REG_def POP_def PEEK_def PUSH_def
  SP_def PC_def O_VC_def MEM_def MEM_LIT_def NUM_LIT_def

lemmas option_defs = OP_PORTION_def AV_PORTION_def BV_PORTION_def NUM_REGISTERS_def
  MAX_VAL_def MEMORY_SIZE_def MEM_DEFAULT_def REG_DEFAULT_def PC_DEFAULT_def SP_DEFAULT_def

lemmas run_defs = ret_def raise_def bnd_def abort_def global_name_def

lemmas item_defs = py_index_def getitem_def list_setitem_def array_setitem_def
  get_memory_def set_memory_def get_register_def set_register_def

lemmas counter_defs = has_overflown_def overflown_def incPC_def incSP_def decSP_def

lemmas fresh_defs = new_DCPU_def init_cpu_def option_defs

lemmas tick_defs = tick_def tick_body_def getval_def setval_def tick_inner_def int_binop_def
  return_overflown_def truediv_overflown_def truediv_has_overflown_def py_mod_def
  py_lshift_def py_rshift_def py_le_def truthy_def encode_def

text \<open>The mask of \<^verbatim>\<open>_overflown\<close> is the remainder modulo 65536, also on a negative value.\<close>

lemma and_MAX_VAL: "(x::int) AND MAX_VAL = x mod 65536"
proof -
  have "(65535::int) = mask 16" by (simp add: mask_eq_exp_minus_1)
  then have "x AND MAX_VAL = take_bit 16 x" by (simp add: MAX_VAL_def take_bit_eq_mask)
  then show ?thesis by (simp add: take_bit_eq_mod)
qed

lemma in_range16_mask: "in_range16 (x AND MAX_VAL)"
  by (simp add: and_MAX_VAL in_range16_def MAX_VAL_def)

lemma incPC_eq:
  "incPC s = (Inr (), s\<lparr>o_flag := has_overflown (pc s + 1), pc := (pc s + 1) mod 65536\<rparr>)"
  by (simp add: incPC_def overflown_def bnd_def and_MAX_VAL)

lemma incSP_eq:
  "incSP s = (Inr (), s\<lparr>o_flag := has_overflown (sp s + 1), sp := (sp s + 1) mod 65536\<rparr>)"
  by (simp add: incSP_def overflown_def bnd_def and_MAX_VAL)

lemma decSP_eq:
  "decSP s = (Inr (), s\<lparr>o_flag := has_overflown (sp s - 1), sp := (sp s - 1) mod 65536\<rparr>)"
  by (simp add: decSP_def overflown_def bnd_def and_MAX_VAL)

lemma get_memory_ok:
  "length (memory s) = 65536 \<Longrightarrow> 0 \<le> i \<Longrightarrow> i < 65536 \<Longrightarrow>
   get_memory i s = (Inr (memory s ! nat i), s)"
  by (simp add: get_memory_def getitem_def py_index_def)

lemma set_memory_ok:
  "length (memory s) = 65536 \<Longrightarrow> 0 \<le> i \<Longrightarrow> i < 65536 \<Longrightarrow> 0 \<le> v \<Longrightarrow> v \<le> 65535 \<Longrightarrow>
   set_memory i v s = (Inr (), s\<lparr>memory := (memory s)[nat i := v]\<rparr>)"
  by (simp add: set_memory_def array_setitem_def py_index_def)

text \<open>The opcode field of any word is one of the sixteen opcodes of the table.\<close>

lemma opcode_field_range: "0 \<le> v AND OP_PORTION \<and> v AND OP_PORTION \<le> 15"
proof -
  have "(15::int) = mask 4" by (simp add: mask_eq_exp_minus_1)
  then have "v AND OP_PORTION = take_bit 4 v" by (simp add: OP_PORTION_def take_bit_eq_mask)
  then show ?thesis by (simp add: take_bit_eq_mod)
qed

text \<open>
  What \<^verbatim>\<open>_tick\<close> does for \<^verbatim>\<open>ADD\<close> taken alone: the masked sum, and the flag of the
  unmasked one.
\<close>

lemma tick_inner_ADD:
  "tick_inner ADD (Some a) (Some b) s =
     (Inr (Some ((a + b) mod 65536)), s\<lparr>o_flag := has_overflown (a + b)\<rparr>)"
  by (simp add: tick_inner_def opcode_defs int_binop_def return_overflown_def overflown_def
      bnd_def ret_def and_MAX_VAL)

text \<open>\<^verbatim>\<open>IFE\<close> is the one conditional that runs: it skips when the operands differ.\<close>

lemma tick_inner_IFE:
  "tick_inner IFE a b s = (if a \<noteq> b then (Inr None, snd (incPC s)) else (Inr None, s))"
  by (simp add: tick_inner_def opcode_defs bnd_def ret_def incPC_eq)

text \<open>
  So \<^verbatim>\<open>tick\<close> never decodes an opcode outside the table of \<^verbatim>\<open>DCPU_OpCodes\<close>: the final
  \<^verbatim>\<open>else\<close> of \<^verbatim>\<open>_tick\<close> has no input that comes through \<^verbatim>\<open>tick\<close>.
\<close>

lemma opcode_field_in_table:
  "v AND OP_PORTION \<in>
     {NOP, SET, ADD, SUB, MUL, DIV, MOD, SHL, SHR, AND_OP, BOR, XOR_OP, IFE, IFN, IFG, IFB}"
proof -
  have "0 \<le> v AND OP_PORTION \<and> v AND OP_PORTION \<le> 15" by (rule opcode_field_range)
  then show ?thesis unfolding opcode_defs by (simp only: insert_iff empty_iff) presburger
qed

text \<open>
  Called directly with an opcode that is none of the sixteen, \<^verbatim>\<open>_tick\<close> stops at the test
  \<^verbatim>\<open>op == IFN\<close> as it does for 13, 14 and 15, before its call of \<^verbatim>\<open>_abort\<close>.
\<close>

lemma tick_inner_outside_table:
  "tick_inner 16 (Some 0) (Some 0) new_DCPU = (Inl (NameError ''IFN''), new_DCPU)"
  by (simp add: tick_defs run_defs opcode_defs)

subsection \<open>The program counter stays a 16-bit value\<close>

lemma keeps_ret: "keeps_pc (ret x)"
  by (simp add: keeps_pc_def ret_def)

lemma keeps_raise: "keeps_pc (raise e)"
  by (simp add: keeps_pc_def raise_def)

lemma keeps_bnd:
  assumes "keeps_pc m" and "\<And>x. keeps_pc (f x)"
  shows "keeps_pc (bnd m f)"
  unfolding keeps_pc_def
proof (intro allI impI)
  fix s assume ok: "pc_ok s"
  obtain r s' where ms: "m s = (r, s')" by (cases "m s")
  have ok': "pc_ok s'" using assms(1) ok ms by (auto simp: keeps_pc_def)
  show "pc_ok (snd (bnd m f s))"
  proof (cases r)
    case (Inl e)
    then show ?thesis using ms ok' by (simp add: bnd_def)
  next
    case (Inr x)
    then show ?thesis using ms ok' assms(2)[of x] by (simp add: bnd_def keeps_pc_def)
  qed
qed

lemma keeps_if: "keeps_pc m \<Longrightarrow> keeps_pc n \<Longrightarrow> keeps_pc (if c then m else n)"
  by simp

lemma keeps_case_sum:
  assumes "\<And>e. keeps_pc (f e)" and "\<And>v. keeps_pc (g v)"
  shows "keeps_pc (case r of Inl e \<Rightarrow> f e | Inr v \<Rightarrow> g v)"
  using assms by (cases r) simp_all

lemma keeps_get_memory: "keeps_pc (\<lambda>s. get_memory (g s) s)"
  by (simp add: keeps_pc_def get_memory_def split: sum.splits)

lemma keeps_set_memory: "keeps_pc (\<lambda>s. set_memory (g s) v s)"
  by (simp add: keeps_pc_def set_memory_def pc_ok_def split: sum.splits)

lemma keeps_get_register: "keeps_pc (get_register i)"
  by (simp add: keeps_pc_def get_register_def split: sum.splits)

lemma keeps_set_register: "keeps_pc (set_register i v)"
  by (simp add: keeps_pc_def set_register_def pc_ok_def split: sum.splits)

lemma keeps_overflown: "keeps_pc (overflown v b)"
  by (simp add: keeps_pc_def overflown_def pc_ok_def)

lemma keeps_bnd_overflown:
  assumes "keeps_pc (f (v AND MAX_VAL))"
  shows "keeps_pc (bnd (overflown v b) f)"
  using assms by (simp add: keeps_pc_def bnd_def overflown_def pc_ok_def)

lemma keeps_incPC: "keeps_pc incPC"
  using in_range16_mask by (simp add: keeps_pc_def incPC_def overflown_def bnd_def pc_ok_def)

lemma keeps_incSP: "keeps_pc incSP"
  by (simp add: keeps_pc_def incSP_eq pc_ok_def)

lemma keeps_decSP: "keeps_pc decSP"
  by (simp add: keeps_pc_def decSP_eq pc_ok_def)

lemmas keeps_intros = keeps_ret keeps_raise keeps_bnd keeps_get_memory keeps_set_memory
  keeps_get_register keeps_set_register keeps_overflown keeps_incPC keeps_incSP keeps_decSP

text \<open>A write through \<^verbatim>\<open>_setval\<close> may assign pc (code 28), so the value written must be in range.\<close>

lemma keeps_setval:
  assumes "case f of None \<Rightarrow> True | Some v \<Rightarrow> in_range16 v"
  shows "keeps_pc (setval vc f)"
proof (cases f)
  case None
  have direct: "keeps_pc (\<lambda>s. (Inr (Some (sp s)), s))" "keeps_pc (\<lambda>s. (Inr (Some (pc s)), s))"
    "keeps_pc (\<lambda>s. (Inr (Some (if o_flag s then 1 else 0)), s))"
    by (simp_all add: keeps_pc_def)
  show ?thesis unfolding setval_def None global_name_def
    by (simp add: keeps_intros keeps_get_memory[of "\<lambda>_. i" for i] direct)
next
  case (Some v)
  then have v: "in_range16 v" using assms by simp
  have direct: "keeps_pc (\<lambda>s. (Inr None, s\<lparr>sp := v\<rparr>))" "keeps_pc (\<lambda>s. (Inr None, s\<lparr>pc := v\<rparr>))"
    "keeps_pc (\<lambda>s. (Inr None, s\<lparr>o_flag := (v \<noteq> 0)\<rparr>))"
    using v by (simp_all add: keeps_pc_def pc_ok_def)
  show ?thesis unfolding setval_def Some global_name_def
    by (simp add: keeps_intros keeps_set_memory[of "\<lambda>_. i" for i]
        keeps_get_memory[of "\<lambda>_. i" for i] direct)
qed

lemma keeps_return_overflown: "keeps_pc (return_overflown a)"
  by (cases a) (simp_all add: return_overflown_def keeps_intros)

lemma keeps_truediv: "keeps_pc (truediv_overflown a b)"
  by (cases a; cases b)
    (simp_all add: truediv_overflown_def keeps_intros keeps_pc_def pc_ok_def raise_def)

lemma keeps_tick_inner: "keeps_pc (tick_inner op a b)"
  unfolding tick_inner_def global_name_def sum.case
  by (intro keeps_if keeps_case_sum keeps_intros keeps_return_overflown keeps_truediv)

lemma keeps_writeback:
  "keeps_pc (case fval of None \<Rightarrow> ret True
     | Some fv \<Rightarrow> bnd (overflown fv True) (\<lambda>fv'. bnd (setval a (Some fv')) (\<lambda>_. ret True)))"
proof (cases fval)
  case None
  then show ?thesis by (simp add: keeps_ret)
next
  case (Some fv)
  have "keeps_pc (setval a (Some (fv AND MAX_VAL)))"
    by (rule keeps_setval) (simp add: in_range16_mask)
  then show ?thesis unfolding Some option.case
    by (intro keeps_bnd_overflown keeps_bnd keeps_ret)
qed

lemma keeps_tick_body: "keeps_pc tick_body"
  unfolding tick_body_def Let_def getval_def
  by (intro keeps_bnd keeps_get_memory keeps_if keeps_ret keeps_tick_inner keeps_writeback
      keeps_setval) simp_all

lemma tick_reaching_end:
  assumes "tick_body s = (Inr True, s1)"
  shows "tick s = incPC s1"
  using assms by (simp add: tick_def bnd_def)

section \<open>The claims\<close>

text \<open>
  C1. The scenario: a fresh CPU whose word 0 encodes \<^verbatim>\<open>SET\<close> with operand a = register 0 and
  operand b = literal 5, that is the word 37889; after one \<^verbatim>\<open>tick\<close>, register 0 should be 5
  and pc should be 1. On the source the call raises \<^verbatim>\<open>NameError\<close> and leaves the CPU as it
  was, register 0 = 0 and pc = 0: \<^verbatim>\<open>tick\<close> passes the masked field 37888 to \<^verbatim>\<open>_getval\<close>
  without shifting it down to the code 37, no branch before the test on the bare name
  \<^verbatim>\<open>NUM_LIT\<close> takes it, and that test raises. The code 37 itself raises at the same test, and
  \<^verbatim>\<open>_tick\<close> hands back operand a, not b, for \<^verbatim>\<open>SET\<close>.
\<close>

theorem set_literal_tick_raises:
  "encode SET 0 37 = 37889
   \<and> tick set_literal_cpu = (Inl (NameError ''NUM_LIT''), set_literal_cpu)
   \<and> registers set_literal_cpu ! 0 = 0 \<and> pc set_literal_cpu = 0
   \<and> getval 37 new_DCPU = (Inl (NameError ''NUM_LIT''), new_DCPU)
   \<and> fst (tick_inner SET (Some 0) (Some 5) new_DCPU) = Inr (Some 0)"
  by (simp add: set_literal_cpu_def tick_defs fresh_defs run_defs item_defs opcode_defs
      value_code_defs counter_defs)

text \<open>
  C2. Operand a is resolved before operand b, but the result is not stored to the location
  resolved for operand a: \<^verbatim>\<open>tick\<close> calls \<^verbatim>\<open>_setval(a, fval)\<close>, which resolves the code a
  second time. With register 0 = 1 and the words 18, 100, 200 at 0, 1, 2 the read takes
  word 1 and yields word 101 (7); the write advances pc again, takes word 2 and stores the
  sum 8 at 201. Word 101 keeps 7 and pc ends at 3.
\<close>

theorem writeback_resolves_again:
  "fst (tick add_offset_cpu) = Inr ()
   \<and> pc (snd (tick add_offset_cpu)) = 3
   \<and> memory (snd (tick add_offset_cpu)) ! 101 = 7
   \<and> memory (snd (tick add_offset_cpu)) ! 201 = 8"
  by (simp add: add_offset_cpu_def tick_defs fresh_defs run_defs item_defs opcode_defs
      value_code_defs counter_defs)

text \<open>
  C3. \<^verbatim>\<open>ADD\<close> of 40000 and 40000 through \<^verbatim>\<open>tick\<close>: the stored value is the sum modulo 65536,
  the sum exceeds 65535, and the overflow flag is false when \<^verbatim>\<open>tick\<close> returns. \<^verbatim>\<open>_tick\<close> sets
  the flag (lemma \<open>tick_inner_ADD\<close>), then \<^verbatim>\<open>tick\<close> masks the masked result once more and
  advances pc, and each of the two overwrites the flag.
\<close>

theorem add_flag_lost:
  "fst (tick add_overflow_cpu) = Inr ()
   \<and> registers (snd (tick add_overflow_cpu)) ! 0 = (40000 + 40000) mod 65536
   \<and> 40000 + 40000 > MAX_VAL
   \<and> o_flag (snd (tick add_overflow_cpu)) = False"
  by (simp add: add_overflow_cpu_def tick_defs fresh_defs run_defs item_defs opcode_defs
      value_code_defs counter_defs)

text \<open>
  C4. \<^verbatim>\<open>DIV\<close> through \<^verbatim>\<open>tick\<close>: with the divisor 0 the call raises \<^verbatim>\<open>ZeroDivisionError\<close> and
  stores nothing; with 6 divided by 6 it raises \<^verbatim>\<open>TypeError\<close>, the quotient being a float
  that \<^verbatim>\<open>_overflown\<close> cannot mask, and stores nothing either.
\<close>

theorem div_raises:
  "tick div_zero_cpu = (Inl ZeroDivisionError, div_zero_cpu)
   \<and> tick div_six_cpu = (Inl TypeError, div_six_cpu)"
  by (simp add: div_zero_cpu_def div_six_cpu_def tick_defs fresh_defs run_defs item_defs opcode_defs
      value_code_defs counter_defs)

text \<open>
  C5. Opcode 0 at pc: one \<^verbatim>\<open>tick\<close> of a fresh CPU returns normally and changes nothing, pc
  included. The early \<^verbatim>\<open>return\<close> comes before the \<^verbatim>\<open>_incPC\<close> that ends the method, so pc
  stays 0 where the module's notes say that \<^verbatim>\<open>NOP\<close> changes pc and nothing else.
\<close>

theorem nop_keeps_pc:
  "tick new_DCPU = (Inr (), new_DCPU) \<and> pc (snd (tick new_DCPU)) = 0"
  by (simp add: tick_defs fresh_defs run_defs item_defs opcode_defs)

text \<open>
  C6. Of the four conditionals only \<^verbatim>\<open>IFE\<close> runs (lemma \<open>tick_inner_IFE\<close>). \<^verbatim>\<open>IFN\<close>,
  \<^verbatim>\<open>IFG\<close> and \<^verbatim>\<open>IFB\<close> raise \<^verbatim>\<open>NameError\<close> at the test \<^verbatim>\<open>op == IFN\<close> whatever the operands
  are, and pc is not advanced: \<^verbatim>\<open>IFN\<close> on equal operands through \<^verbatim>\<open>tick\<close>, and each of the
  three through \<^verbatim>\<open>_tick\<close>.
\<close>

theorem ifn_ifg_ifb_raise:
  "tick ifn_cpu = (Inl (NameError ''IFN''), ifn_cpu)
   \<and> tick_inner IFN (Some 1) (Some 1) new_DCPU = (Inl (NameError ''IFN''), new_DCPU)
   \<and> tick_inner IFG (Some 1) (Some 2) new_DCPU = (Inl (NameError ''IFN''), new_DCPU)
   \<and> tick_inner IFB (Some 1) (Some 2) new_DCPU = (Inl (NameError ''IFN''), new_DCPU)"
  by (simp add: ifn_cpu_def tick_defs fresh_defs run_defs item_defs opcode_defs
      value_code_defs counter_defs)

text \<open>
  C8. For every 16-bit value v and every 16-bit stack pointer, on a memory of 65536 words:
  writing v through value code 26 (\<^verbatim>\<open>PUSH\<close>) succeeds, reading through value code 24
  (\<^verbatim>\<open>POP\<close>) in the resulting state returns v, and sp is back at its starting value.
\<close>

theorem push_pop_roundtrip:
  assumes "length (memory s) = MEMORY_SIZE" and "in_range16 (sp s)" and "in_range16 v"
  shows "fst (setval PUSH (Some v) s) = Inr None
       \<and> fst (getval POP (snd (setval PUSH (Some v) s))) = Inr (Some v)
       \<and> sp (snd (getval POP (snd (setval PUSH (Some v) s)))) = sp s"
proof -
  have len: "length (memory s) = 65536" using assms by (simp add: MEMORY_SIZE_def)
  define spd where "spd = (sp s - 1) mod 65536"
  have spd_rng: "0 \<le> spd" "spd < 65536" by (simp_all add: spd_def)
  define s1 where
    "s1 = s\<lparr>o_flag := has_overflown (sp s - 1), sp := spd, memory := (memory s)[nat spd := v]\<rparr>"
  have push: "setval PUSH (Some v) s = (Inr None, s1)"
    using len spd_rng assms(3)
    by (simp add: setval_def value_code_defs bnd_def ret_def decSP_eq set_memory_ok
        spd_def[symmetric] s1_def in_range16_def MAX_VAL_def)
  have sp_back: "(spd + 1) mod 65536 = sp s"
    using assms(2) unfolding spd_def in_range16_def MAX_VAL_def by (simp add: mod_simps)
  have pop: "getval POP s1 = (Inr (Some v), s1\<lparr>o_flag := has_overflown (spd + 1), sp := sp s\<rparr>)"
    using len spd_rng
    by (simp add: getval_def setval_def value_code_defs bnd_def ret_def incSP_eq get_memory_def
        getitem_def py_index_def s1_def sp_back)
  show ?thesis by (simp add: push pop)
qed

text \<open>The round trip on a fresh CPU, whose sp is 0 and wraps to 65535, with v = 4660.\<close>

theorem push_pop_roundtrip_witness:
  "length (memory new_DCPU) = MEMORY_SIZE \<and> in_range16 (sp new_DCPU) \<and> in_range16 4660
   \<and> fst (setval PUSH (Some 4660) new_DCPU) = Inr None
   \<and> fst (getval POP (snd (setval PUSH (Some 4660) new_DCPU))) = Inr (Some 4660)
   \<and> sp (snd (getval POP (snd (setval PUSH (Some 4660) new_DCPU)))) = sp new_DCPU"
proof -
  have h: "length (memory new_DCPU) = MEMORY_SIZE" "in_range16 (sp new_DCPU)" "in_range16 4660"
    by (simp_all add: fresh_defs in_range16_def)
  show ?thesis using h push_pop_roundtrip[OF h] by simp
qed

text \<open>
  C9. On a memory of 65536 words, reading value code 31 returns the word at the new pc,
  which is pc + 1 modulo 65536 (pc + 1 itself below 65535), and changes nothing but pc and
  the overflow flag; writing to value code 31 returns at once and leaves the whole state,
  every memory word included, as it was.
\<close>

theorem next_word_literal:
  assumes "length (memory s) = MEMORY_SIZE"
  shows "getval MEM_LIT s =
           (Inr (Some (memory s ! nat ((pc s + 1) mod 65536))),
            s\<lparr>o_flag := has_overflown (pc s + 1), pc := (pc s + 1) mod 65536\<rparr>)
         \<and> (0 \<le> pc s \<and> pc s < MAX_VAL \<longrightarrow> pc (snd (getval MEM_LIT s)) = pc s + 1)
         \<and> setval MEM_LIT (Some f) s = (Inr None, s)"
proof -
  have len: "length (memory s) = 65536" using assms by (simp add: MEMORY_SIZE_def)
  have rd: "getval MEM_LIT s =
           (Inr (Some (memory s ! nat ((pc s + 1) mod 65536))),
            s\<lparr>o_flag := has_overflown (pc s + 1), pc := (pc s + 1) mod 65536\<rparr>)"
    using len
    by (simp add: getval_def setval_def value_code_defs bnd_def ret_def incPC_eq get_memory_ok)
  have wr: "setval MEM_LIT (Some f) s = (Inr None, s)"
    by (simp add: setval_def value_code_defs ret_def)
  show ?thesis using rd wr by (simp add: MAX_VAL_def)
qed

text \<open>A fresh CPU with 42 in word 1: the read returns 42 and pc is 1.\<close>

theorem next_word_literal_witness:
  "length (memory next_word_cpu) = MEMORY_SIZE
   \<and> 0 \<le> pc next_word_cpu \<and> pc next_word_cpu < MAX_VAL
   \<and> getval MEM_LIT next_word_cpu = (Inr (Some 42), next_word_cpu\<lparr>o_flag := False, pc := 1\<rparr>)
   \<and> pc (snd (getval MEM_LIT next_word_cpu)) = pc next_word_cpu + 1
   \<and> setval MEM_LIT (Some 9) next_word_cpu = (Inr None, next_word_cpu)"
proof -
  have h: "length (memory next_word_cpu) = MEMORY_SIZE"
    by (simp add: next_word_cpu_def fresh_defs)
  show ?thesis using h next_word_literal[OF h, of 9]
    by (simp add: next_word_cpu_def fresh_defs has_overflown_def)
qed

text \<open>
  C10. \<^verbatim>\<open>_overflown\<close> assigns the overflow flag on every call, whatever \<^verbatim>\<open>setO\<close> is; so
  \<^verbatim>\<open>_incPC\<close>, \<^verbatim>\<open>_incSP\<close> and \<^verbatim>\<open>_decSP\<close> leave the flag saying whether the 16-bit counter
  wrapped (pc or sp was 65535 before an increment, sp was 0 before the decrement); and
  when \<^verbatim>\<open>tick\<close> reaches its last statement in state s1, whatever the opcode was, it returns
  what \<^verbatim>\<open>_incPC\<close> gives on s1, with the flag equal to (pc of s1 = 65535).
\<close>

theorem overflow_flag_follows_counters:
  "o_flag (snd (overflown val setO s)) = has_overflown val
   \<and> (in_range16 (pc s) \<longrightarrow> o_flag (snd (incPC s)) = (pc s = 65535))
   \<and> (in_range16 (sp s) \<longrightarrow> o_flag (snd (incSP s)) = (sp s = 65535))
   \<and> (in_range16 (sp s) \<longrightarrow> o_flag (snd (decSP s)) = (sp s = 0))
   \<and> (in_range16 (pc s) \<and> tick_body s = (Inr True, s1) \<longrightarrow>
        tick s = incPC s1 \<and> o_flag (snd (tick s)) = (pc s1 = 65535))"
proof -
  have a: "o_flag (snd (overflown val setO s)) = has_overflown val"
    by (simp add: overflown_def)
  have b: "in_range16 (pc t) \<Longrightarrow> o_flag (snd (incPC t)) = (pc t = 65535)" for t
    by (auto simp: incPC_eq has_overflown_def in_range16_def MAX_VAL_def)
  have c: "in_range16 (sp s) \<longrightarrow> o_flag (snd (incSP s)) = (sp s = 65535)"
    by (auto simp: incSP_eq has_overflown_def in_range16_def MAX_VAL_def)
  have d: "in_range16 (sp s) \<longrightarrow> o_flag (snd (decSP s)) = (sp s = 0)"
    by (auto simp: decSP_eq has_overflown_def in_range16_def MAX_VAL_def)
  have e: "tick s = incPC s1 \<and> o_flag (snd (tick s)) = (pc s1 = 65535)"
    if ok: "in_range16 (pc s)" and body: "tick_body s = (Inr True, s1)"
  proof -
    have "pc_ok (snd (tick_body s))"
      using keeps_tick_body ok by (simp add: keeps_pc_def pc_ok_def)
    then have "in_range16 (pc s1)" using body by (simp add: pc_ok_def)
    then show ?thesis using tick_reaching_end[OF body] b[of s1] by simp
  qed
  show ?thesis using a b[of s] c d e by blast
qed

text \<open>
  An \<^verbatim>\<open>ADD\<close> of 40000 and 40000 at pc = 65535: the flag is true after the \<^verbatim>\<open>tick\<close> because pc
  wrapped.
\<close>

theorem overflow_flag_follows_counters_witness:
  "in_range16 (pc wrap_cpu) \<and> in_range16 (sp wrap_cpu)
   \<and> tick_body wrap_cpu = (Inr True, wrap_cpu_body)
   \<and> o_flag (snd (overflown 70000 False wrap_cpu)) = has_overflown 70000
   \<and> o_flag (snd (incPC wrap_cpu)) = (pc wrap_cpu = 65535)
   \<and> o_flag (snd (incSP wrap_cpu)) = (sp wrap_cpu = 65535)
   \<and> o_flag (snd (decSP wrap_cpu)) = (sp wrap_cpu = 0)
   \<and> tick wrap_cpu = incPC wrap_cpu_body
   \<and> o_flag (snd (tick wrap_cpu)) = (pc wrap_cpu_body = 65535)
   \<and> o_flag (snd (tick wrap_cpu)) = True"
proof -
  have h: "in_range16 (pc wrap_cpu)" "in_range16 (sp wrap_cpu)"
    by (simp_all add: wrap_cpu_def fresh_defs in_range16_def)
  have body: "tick_body wrap_cpu = (Inr True, wrap_cpu_body)"
    by (simp add: wrap_cpu_body_def wrap_cpu_def tick_defs fresh_defs run_defs item_defs
        opcode_defs value_code_defs counter_defs)
  have pcb: "pc wrap_cpu_body = 65535"
    by (simp add: wrap_cpu_body_def wrap_cpu_def)
  show ?thesis
    using h body pcb overflow_flag_follows_counters[of 70000 False wrap_cpu wrap_cpu_body]
    by auto
qed

end
